theory Spec2Isabelle
  imports Main
begin

section \<open>The runtime the module runs on\<close>

text \<open>
  The module \<^verbatim>\<open>advanced-types/src/app.ts\<close> is a script of TypeScript snippets. Its
  functions use four primitives of the JavaScript runtime that the module does not
  define: addition of two numbers, \<^verbatim>\<open>Number.prototype.toString\<close>, the value of a
  decimal integer literal, and \<^verbatim>\<open>Date.prototype.toString\<close>. They are taken as a
  parameter \<open>B\<close>, so that every general theorem below holds for any number and date
  representation, IEEE doubles included.
\<close>

record ('n, 'd) builtins =
  numPlus :: "'n \<Rightarrow> 'n \<Rightarrow> 'n"
  numToString :: "'n \<Rightarrow> string"
  numLit :: "nat \<Rightarrow> 'n"
  dateToString :: "'d \<Rightarrow> string"

text \<open>\<^verbatim>\<open>type Combinable = string | number\<close> (line 31).\<close>

datatype 'n combinable = Str string | Num 'n

text \<open>
  The values a property of the module's records can hold: a string or a number, a
  \<^verbatim>\<open>Date\<close>, an array, and \<^verbatim>\<open>undefined\<close>, which is also what reading an absent
  property or an unassigned variable gives.
\<close>

datatype ('n, 'd) jsval =
  Undefined
| Prim "'n combinable"
| DateObj 'd
| ArrayObj "('n, 'd) jsval list"

text \<open>
  An object has a prototype and own properties. The module has three prototypes:
  \<^verbatim>\<open>Object.prototype\<close> (object literals), \<^verbatim>\<open>Car.prototype\<close> and
  \<^verbatim>\<open>Truck.prototype\<close> (lines 76-90). None of them defines a property that the
  module reads or tests by name, so a property read is a lookup of the own properties.
\<close>

datatype cls = Object | Car | Truck

record ('n, 'd) jsobj =
  proto :: cls
  props :: "string \<rightharpoonup> ('n, 'd) jsval"

text \<open>
  Objects are passed by reference. The world is the console, as the list of lines
  written so far, and the heap, which gives every reference its object.
\<close>

type_synonym ref = nat

record ('n, 'd) world =
  console :: "string list"
  heap :: "ref \<Rightarrow> ('n, 'd) jsobj"

datatype js_error = TypeError

text \<open>A call completes normally or throws; either way it leaves a world behind.\<close>

datatype ('n, 'd) completion =
  Normal "('n, 'd) world"
| Throw js_error "('n, 'd) world"

fun world_of :: "('n, 'd) completion \<Rightarrow> ('n, 'd) world" where
  "world_of (Normal w) = w"
| "world_of (Throw e w) = w"

fun is_normal :: "('n, 'd) completion \<Rightarrow> bool" where
  "is_normal (Normal w) = True"
| "is_normal (Throw e w) = False"

text \<open>The lines a call wrote: what the console holds beyond what it held before.\<close>

definition printed :: "('n, 'd) world \<Rightarrow> ('n, 'd) completion \<Rightarrow> string list" where
  "printed w c = drop (length (console w)) (console (world_of c))"

subsection \<open>Operators and built-in methods\<close>

text \<open>\<^verbatim>\<open>typeof\<close> on a string or a number.\<close>

fun typeof :: "'n combinable \<Rightarrow> string" where
  "typeof (Str s) = ''string''"
| "typeof (Num n) = ''number''"

text \<open>\<^verbatim>\<open>x.toString()\<close> on a string or a number.\<close>

fun toString :: "('n, 'd) builtins \<Rightarrow> 'n combinable \<Rightarrow> string" where
  "toString B (Str s) = s"
| "toString B (Num n) = numToString B n"

text \<open>
  The operator \<^verbatim>\<open>+\<close> on strings and numbers: numeric addition of two numbers,
  and otherwise the concatenation of the operands' string conversions.
\<close>

fun js_plus :: "('n, 'd) builtins \<Rightarrow> 'n combinable \<Rightarrow> 'n combinable \<Rightarrow> 'n combinable" where
  "js_plus B (Num x) (Num y) = Num (numPlus B x y)"
| "js_plus B a b = Str (toString B a @ toString B b)"

text \<open>\<^verbatim>\<open>Array.prototype.join\<close> on strings.\<close>

fun join :: "string \<Rightarrow> string list \<Rightarrow> string" where
  "join sep [] = []"
| "join sep [x] = x"
| "join sep (x # y # ys) = x @ sep @ join sep (y # ys)"

text \<open>
  The string conversion of a template literal \<^verbatim>\<open>${v}\<close>. An array converts by
  joining its elements with a comma, where an \<^verbatim>\<open>undefined\<close> element gives the
  empty string.
\<close>

fun toStr :: "('n, 'd) builtins \<Rightarrow> ('n, 'd) jsval \<Rightarrow> string" where
  "toStr B Undefined = ''undefined''"
| "toStr B (Prim c) = toString B c"
| "toStr B (DateObj d) = dateToString B d"
| "toStr B (ArrayObj vs) =
     join '','' (map (\<lambda>v. case v of Undefined \<Rightarrow> [] | _ \<Rightarrow> toStr B v) vs)"

text \<open>\<^verbatim>\<open>obj.k\<close>: the property's value, \<^verbatim>\<open>undefined\<close> when the object has none.\<close>

definition get :: "('n, 'd) jsobj \<Rightarrow> string \<Rightarrow> ('n, 'd) jsval" where
  "get obj k = (case props obj k of None \<Rightarrow> Undefined | Some v \<Rightarrow> v)"

text \<open>\<^verbatim>\<open>k in obj\<close>: the property exists, whatever its value.\<close>

definition js_in :: "string \<Rightarrow> ('n, 'd) jsobj \<Rightarrow> bool" where
  "js_in k obj = (props obj k \<noteq> None)"

text \<open>\<^verbatim>\<open>obj instanceof Truck\<close>: the module has no subclass of \<^verbatim>\<open>Truck\<close>.\<close>

definition instanceof_Truck :: "('n, 'd) jsobj \<Rightarrow> bool" where
  "instanceof_Truck obj = (proto obj = Truck)"

text \<open>\<^verbatim>\<open>console.log(line)\<close> with one string argument.\<close>

definition console_log :: "string \<Rightarrow> ('n, 'd) world \<Rightarrow> ('n, 'd) world" where
  "console_log line w = w\<lparr>console := console w @ [line]\<rparr>"

text \<open>
  \<^verbatim>\<open>String.prototype.split\<close> with a separator of one character: the pieces
  between the occurrences of the separator, empty pieces included.
\<close>

fun split_on :: "char \<Rightarrow> string \<Rightarrow> string list" where
  "split_on c [] = [[]]"
| "split_on c (x # xs) =
     (if x = c then [] # split_on c xs
      else (case split_on c xs of [] \<Rightarrow> [[x]] | t # ts \<Rightarrow> (x # t) # ts))"

text \<open>
  \<^verbatim>\<open>v.split(sep)\<close> on a string or a number: a number has no method
  \<^verbatim>\<open>split\<close>, and calling it throws.
\<close>

fun split_str :: "'n combinable \<Rightarrow> char \<Rightarrow> js_error + string list" where
  "split_str (Str s) sep = Inr (split_on sep s)"
| "split_str (Num n) sep = Inl TypeError"

section \<open>The module\<close>

subsection \<open>Type guards with \<^verbatim>\<open>typeof\<close> (lines 44-49)\<close>

definition add :: "('n, 'd) builtins \<Rightarrow> 'n combinable \<Rightarrow> 'n combinable \<Rightarrow> 'n combinable" where
  "add B a b =
     (if typeof a = ''string'' \<or> typeof b = ''string''
      then js_plus B (Str (toString B a)) (Str (toString B b))
      else js_plus B a b)"

subsection \<open>Type guards with \<^verbatim>\<open>in\<close> (lines 58-69)\<close>

definition printEmployeeInformation ::
  "('n, 'd) builtins \<Rightarrow> ref \<Rightarrow> ('n, 'd) world \<Rightarrow> ('n, 'd) completion" where
  "printEmployeeInformation B emp w =
     (let w1 = console_log ''EMPLOYEE DETAILS:'' w;
          w2 = console_log (''Name: '' @ toStr B (get (heap w1 emp) ''name'')) w1;
          w3 = (if js_in ''startDate'' (heap w2 emp)
                then console_log (''Start Date: '' @ toStr B (get (heap w2 emp) ''startDate'')) w2
                else w2);
          w4 = (if js_in ''privileges'' (heap w3 emp)
                then console_log (''Privileges: '' @ toStr B (get (heap w3 emp) ''privileges'')) w3
                else w3)
      in Normal w4)"

subsection \<open>Type guards with \<^verbatim>\<open>instanceof\<close> (lines 76-102)\<close>

definition Car_drive :: "('n, 'd) world \<Rightarrow> ('n, 'd) world" where
  "Car_drive w = console_log ''vroom'' w"

definition Truck_drive :: "('n, 'd) world \<Rightarrow> ('n, 'd) world" where
  "Truck_drive w = console_log ''VROOM'' w"

definition Truck_loadCargo :: "('n, 'd) builtins \<Rightarrow> 'n \<Rightarrow> ('n, 'd) world \<Rightarrow> ('n, 'd) world" where
  "Truck_loadCargo B weight w =
     console_log (''Loading cardo : '' @ toStr B (Prim (Num weight)) @ '' kg(s)'') w"

text \<open>
  The call \<^verbatim>\<open>vehichle.drive()\<close> finds the method through the prototype. An object
  literal has no method \<^verbatim>\<open>drive\<close>: the call throws a \<^verbatim>\<open>TypeError\<close>.
\<close>

definition drive :: "ref \<Rightarrow> ('n, 'd) world \<Rightarrow> ('n, 'd) completion" where
  "drive r w =
     (case proto (heap w r) of
        Car \<Rightarrow> Normal (Car_drive w)
      | Truck \<Rightarrow> Normal (Truck_drive w)
      | Object \<Rightarrow> Throw TypeError w)"

definition operateVehicle ::
  "('n, 'd) builtins \<Rightarrow> ref \<Rightarrow> ('n, 'd) world \<Rightarrow> ('n, 'd) completion" where
  "operateVehicle B vehichle w =
     (let w1 = console_log ''Operating vehicle...'' w
      in case drive vehichle w1 of
           Throw e w2 \<Rightarrow> Throw e w2
         | Normal w2 \<Rightarrow>
             if instanceof_Truck (heap w2 vehichle)
             then Normal (Truck_loadCargo B (numLit B 420) w2)
             else Normal w2)"

subsection \<open>Discriminated unions (lines 129-142)\<close>

text \<open>
  \<^verbatim>\<open>let speed: number\<close> declares the variable without a value, so it holds
  \<^verbatim>\<open>undefined\<close> until a case of the \<^verbatim>\<open>switch\<close> assigns it. The
  \<^verbatim>\<open>switch\<close> has no \<^verbatim>\<open>default\<close>.
\<close>

definition moveFauna ::
  "('n, 'd) builtins \<Rightarrow> ref \<Rightarrow> ('n, 'd) world \<Rightarrow> ('n, 'd) completion" where
  "moveFauna B fauna w =
     (let speed =
        (if get (heap w fauna) ''type'' = Prim (Str ''animal'')
         then get (heap w fauna) ''runningSpeed''
         else if get (heap w fauna) ''type'' = Prim (Str ''bird'')
         then get (heap w fauna) ''flyingSpeed''
         else Undefined)
      in Normal (console_log (''The speed of the fauna is '' @ toStr B speed) w))"

subsection \<open>Function overloading (lines 200-214)\<close>

text \<open>
  The four overload signatures are erased by the compiler; the implementation
  signature's body is what runs.
\<close>

definition addCombinable ::
  "('n, 'd) builtins \<Rightarrow> 'n combinable \<Rightarrow> 'n combinable \<Rightarrow> 'n combinable" where
  "addCombinable B a b =
     (if typeof a = ''string'' \<or> typeof b = ''string''
      then js_plus B (Str (toString B a)) (Str (toString B b))
      else js_plus B a b)"

definition result :: "('n, 'd) builtins \<Rightarrow> 'n combinable" where
  "result B = addCombinable B (Str ''Ashutosh'') (Str '' Bhadoria'')"

definition result_split :: "('n, 'd) builtins \<Rightarrow> js_error + string list" where
  "result_split B = split_str (result B) CHR '' ''"

subsection \<open>The module's sample objects\<close>

text \<open>
  \<^verbatim>\<open>new Date()\<close> is the time of the run, a parameter here. The references are
  the order in which the script creates the objects.
\<close>

definition ashutosh :: "'d \<Rightarrow> ('n, 'd) jsobj" where
  "ashutosh now =
     \<lparr>proto = Object,
      props = [''name'' \<mapsto> Prim (Str ''Ashutosh''),
               ''privileges'' \<mapsto>
                 ArrayObj [Prim (Str ''drop-tables''), Prim (Str ''change-schema'')],
               ''startDate'' \<mapsto> DateObj now]\<rparr>"

definition aditya :: "('n, 'd) jsobj" where
  "aditya =
     \<lparr>proto = Object,
      props = [''name'' \<mapsto> Prim (Str ''Aditya''),
               ''privileges'' \<mapsto> ArrayObj [Prim (Str ''restart-server'')]]\<rparr>"

definition randy :: "'d \<Rightarrow> ('n, 'd) jsobj" where
  "randy now =
     \<lparr>proto = Object,
      props = [''name'' \<mapsto> Prim (Str ''Randy''), ''startDate'' \<mapsto> DateObj now]\<rparr>"

definition shelbyGT :: "('n, 'd) jsobj" where
  "shelbyGT = \<lparr>proto = Car, props = Map.empty\<rparr>"

definition fordRaptor :: "('n, 'd) jsobj" where
  "fordRaptor = \<lparr>proto = Truck, props = Map.empty\<rparr>"

definition horse :: "('n, 'd) builtins \<Rightarrow> ('n, 'd) jsobj" where
  "horse B =
     \<lparr>proto = Object,
      props = [''type'' \<mapsto> Prim (Str ''animal''),
               ''runningSpeed'' \<mapsto> Prim (Num (numLit B 20))]\<rparr>"

definition sparrow :: "('n, 'd) builtins \<Rightarrow> ('n, 'd) jsobj" where
  "sparrow B =
     \<lparr>proto = Object,
      props = [''type'' \<mapsto> Prim (Str ''bird''),
               ''flyingSpeed'' \<mapsto> Prim (Num (numLit B 10))]\<rparr>"

definition module_heap :: "('n, 'd) builtins \<Rightarrow> 'd \<Rightarrow> ref \<Rightarrow> ('n, 'd) jsobj" where
  "module_heap B now =
     (\<lambda>r. \<lparr>proto = Object, props = Map.empty\<rparr>)
       (0 := ashutosh now, 1 := aditya, 2 := randy now, 3 := shelbyGT,
        4 := fordRaptor, 5 := horse B, 6 := sparrow B)"

definition module_world :: "('n, 'd) builtins \<Rightarrow> 'd \<Rightarrow> ('n, 'd) world" where
  "module_world B now = \<lparr>console = [], heap = module_heap B now\<rparr>"

subsection \<open>A runtime on the integers\<close>

text \<open>
  On integers below \<open>2\<^sup>5\<^sup>3\<close> in magnitude the runtime's numbers add exactly and
  print in decimal. This instance evaluates the module on its integer literals; a date
  is given by the text the runtime prints for it.
\<close>

definition digit :: "nat \<Rightarrow> char" where
  "digit d = ''0123456789'' ! d"

fun decimal :: "nat \<Rightarrow> string" where
  "decimal n = (if n < 10 then [digit n] else decimal (n div 10) @ [digit (n mod 10)])"

declare decimal.simps [simp del]

definition show_int :: "int \<Rightarrow> string" where
  "show_int i = (if i < 0 then CHR ''-'' # decimal (nat (- i)) else decimal (nat i))"

definition int_rt :: "(int, string) builtins" where
  "int_rt = \<lparr>numPlus = (+), numToString = show_int, numLit = int, dateToString = (\<lambda>d. d)\<rparr>"

subsection \<open>Calls with a missing argument\<close>

text \<open>
  The compiler erases the types, and the compiled functions can be called with an
  argument left out; the parameter is then \<^verbatim>\<open>undefined\<close>. To state that the
  functions cannot fail on their declared inputs, each one is embedded once more with
  the runtime checks of the operations its body uses: reading a property of
  \<^verbatim>\<open>undefined\<close>, \<^verbatim>\<open>in\<close> on \<^verbatim>\<open>undefined\<close>, and calling a method of
  \<^verbatim>\<open>undefined\<close> (\<^verbatim>\<open>toString\<close>, \<^verbatim>\<open>drive\<close>) throw a \<^verbatim>\<open>TypeError\<close>.
  An argument is \<open>Some x\<close>, with \<open>x\<close> a value of the parameter's kind, or \<open>None\<close> when
  it is missing.

  An abrupt completion carries what was thrown: an error of the runtime's, or the
  operand of a \<^verbatim>\<open>throw\<close> statement. The module has no \<^verbatim>\<open>throw\<close> statement and
  declares no error class.
\<close>

datatype ('n, 'd) thrown =
  Runtime_error js_error
| Thrown_value "('n, 'd) jsval"

datatype ('n, 'd) outcome =
  Returns "('n, 'd) world"
| Raises "('n, 'd) thrown" "('n, 'd) world"

text \<open>\<^verbatim>\<open>typeof\<close>, \<^verbatim>\<open>x.toString()\<close> and \<^verbatim>\<open>+\<close> with \<^verbatim>\<open>undefined\<close> operands.
  In a sum of \<^verbatim>\<open>undefined\<close> and a number, \<^verbatim>\<open>undefined\<close> converts to the
  runtime's \<^verbatim>\<open>NaN\<close>, the parameter \<open>nan\<close>.\<close>

fun typeof_opt :: "'n combinable option \<Rightarrow> string" where
  "typeof_opt None = ''undefined''"
| "typeof_opt (Some c) = typeof c"

fun toString_opt ::
  "('n, 'd) builtins \<Rightarrow> 'n combinable option \<Rightarrow> ('n, 'd) thrown + string" where
  "toString_opt B None = Inl (Runtime_error TypeError)"
| "toString_opt B (Some c) = Inr (toString B c)"

fun plus_opt ::
  "('n, 'd) builtins \<Rightarrow> 'n \<Rightarrow> 'n combinable option \<Rightarrow> 'n combinable option
     \<Rightarrow> 'n combinable" where
  "plus_opt B nan (Some x) (Some y) = js_plus B x y"
| "plus_opt B nan None (Some (Str s)) = Str (''undefined'' @ s)"
| "plus_opt B nan (Some (Str s)) None = Str (s @ ''undefined'')"
| "plus_opt B nan None (Some (Num y)) = Num (numPlus B nan y)"
| "plus_opt B nan (Some (Num x)) None = Num (numPlus B x nan)"
| "plus_opt B nan None None = Num (numPlus B nan nan)"

text \<open>\<^verbatim>\<open>add\<close> (lines 44-49): \<^verbatim>\<open>a.toString()\<close> is evaluated before
  \<^verbatim>\<open>b.toString()\<close>.\<close>

definition add_untyped ::
  "('n, 'd) builtins \<Rightarrow> 'n \<Rightarrow> 'n combinable option \<Rightarrow> 'n combinable option
     \<Rightarrow> ('n, 'd) thrown + 'n combinable" where
  "add_untyped B nan a b =
     (if typeof_opt a = ''string'' \<or> typeof_opt b = ''string''
      then (case toString_opt B a of
              Inl t \<Rightarrow> Inl t
            | Inr s \<Rightarrow>
                (case toString_opt B b of
                   Inl t \<Rightarrow> Inl t
                 | Inr s' \<Rightarrow> Inr (js_plus B (Str s) (Str s'))))
      else Inr (plus_opt B nan a b))"

text \<open>\<^verbatim>\<open>addCombinable\<close> (lines 205-210).\<close>

definition addCombinable_untyped ::
  "('n, 'd) builtins \<Rightarrow> 'n \<Rightarrow> 'n combinable option \<Rightarrow> 'n combinable option
     \<Rightarrow> ('n, 'd) thrown + 'n combinable" where
  "addCombinable_untyped B nan a b =
     (if typeof_opt a = ''string'' \<or> typeof_opt b = ''string''
      then (case toString_opt B a of
              Inl t \<Rightarrow> Inl t
            | Inr s \<Rightarrow>
                (case toString_opt B b of
                   Inl t \<Rightarrow> Inl t
                 | Inr s' \<Rightarrow> Inr (js_plus B (Str s) (Str s'))))
      else Inr (plus_opt B nan a b))"

text \<open>\<^verbatim>\<open>x.k\<close>, \<^verbatim>\<open>k in x\<close>, \<^verbatim>\<open>x instanceof Truck\<close> and \<^verbatim>\<open>x.drive()\<close>
  where \<open>x\<close> is an object or \<^verbatim>\<open>undefined\<close>. Only \<^verbatim>\<open>instanceof\<close> accepts
  \<^verbatim>\<open>undefined\<close>, and answers false.\<close>

definition read_prop ::
  "ref option \<Rightarrow> string \<Rightarrow> ('n, 'd) world \<Rightarrow> ('n, 'd) thrown + ('n, 'd) jsval" where
  "read_prop x k w =
     (case x of
        None \<Rightarrow> Inl (Runtime_error TypeError)
      | Some r \<Rightarrow> Inr (get (heap w r) k))"

definition in_opt ::
  "string \<Rightarrow> ref option \<Rightarrow> ('n, 'd) world \<Rightarrow> ('n, 'd) thrown + bool" where
  "in_opt k x w =
     (case x of
        None \<Rightarrow> Inl (Runtime_error TypeError)
      | Some r \<Rightarrow> Inr (js_in k (heap w r)))"

definition instanceof_Truck_opt :: "ref option \<Rightarrow> ('n, 'd) world \<Rightarrow> bool" where
  "instanceof_Truck_opt x w =
     (case x of None \<Rightarrow> False | Some r \<Rightarrow> instanceof_Truck (heap w r))"

definition drive_opt :: "ref option \<Rightarrow> ('n, 'd) world \<Rightarrow> ('n, 'd) outcome" where
  "drive_opt x w =
     (case x of
        None \<Rightarrow> Raises (Runtime_error TypeError) w
      | Some r \<Rightarrow>
          (case drive r w of
             Normal w' \<Rightarrow> Returns w'
           | Throw e w' \<Rightarrow> Raises (Runtime_error e) w'))"

text \<open>Statements in sequence: the next one runs only if the one before returned.\<close>

definition and_then ::
  "('n, 'd) outcome \<Rightarrow> (('n, 'd) world \<Rightarrow> ('n, 'd) outcome) \<Rightarrow> ('n, 'd) outcome" where
  "and_then c k = (case c of Returns w \<Rightarrow> k w | Raises t w \<Rightarrow> Raises t w)"

text \<open>\<^verbatim>\<open>console.log(`label${x.k}`)\<close>, and the same under \<^verbatim>\<open>if (k in x)\<close>.\<close>

definition log_prop ::
  "('n, 'd) builtins \<Rightarrow> string \<Rightarrow> ref option \<Rightarrow> string \<Rightarrow> ('n, 'd) world
     \<Rightarrow> ('n, 'd) outcome" where
  "log_prop B label x k w =
     (case read_prop x k w of
        Inl t \<Rightarrow> Raises t w
      | Inr v \<Rightarrow> Returns (console_log (label @ toStr B v) w))"

definition log_prop_if_in ::
  "('n, 'd) builtins \<Rightarrow> string \<Rightarrow> ref option \<Rightarrow> string \<Rightarrow> ('n, 'd) world
     \<Rightarrow> ('n, 'd) outcome" where
  "log_prop_if_in B label x k w =
     (case in_opt k x w of
        Inl t \<Rightarrow> Raises t w
      | Inr present \<Rightarrow> if present then log_prop B label x k w else Returns w)"

text \<open>\<^verbatim>\<open>printEmployeeInformation\<close> (lines 58-69).\<close>

definition printEmployeeInformation_untyped ::
  "('n, 'd) builtins \<Rightarrow> ref option \<Rightarrow> ('n, 'd) world \<Rightarrow> ('n, 'd) outcome" where
  "printEmployeeInformation_untyped B emp w =
     and_then
       (and_then
          (and_then (Returns (console_log ''EMPLOYEE DETAILS:'' w))
             (log_prop B ''Name: '' emp ''name''))
          (log_prop_if_in B ''Start Date: '' emp ''startDate''))
       (log_prop_if_in B ''Privileges: '' emp ''privileges'')"

text \<open>\<^verbatim>\<open>operateVehicle\<close> (lines 94-102).\<close>

definition operateVehicle_untyped ::
  "('n, 'd) builtins \<Rightarrow> ref option \<Rightarrow> ('n, 'd) world \<Rightarrow> ('n, 'd) outcome" where
  "operateVehicle_untyped B vehichle w =
     and_then
       (and_then (Returns (console_log ''Operating vehicle...'' w)) (drive_opt vehichle))
       (\<lambda>w2. if instanceof_Truck_opt vehichle w2
              then Returns (Truck_loadCargo B (numLit B 420) w2)
              else Returns w2)"

text \<open>\<^verbatim>\<open>moveFauna\<close> (lines 129-142).\<close>

definition moveFauna_untyped ::
  "('n, 'd) builtins \<Rightarrow> ref option \<Rightarrow> ('n, 'd) world \<Rightarrow> ('n, 'd) outcome" where
  "moveFauna_untyped B fauna w =
     (case read_prop fauna ''type'' w of
        Inl t \<Rightarrow> Raises t w
      | Inr tag \<Rightarrow>
          (case (if tag = Prim (Str ''animal'') then read_prop fauna ''runningSpeed'' w
                 else if tag = Prim (Str ''bird'') then read_prop fauna ''flyingSpeed'' w
                 else Inr Undefined) of
             Inl t \<Rightarrow> Raises t w
           | Inr speed \<Rightarrow>
               Returns (console_log (''The speed of the fauna is '' @ toStr B speed) w)))"

text \<open>
  A runtime on the integers with a \<^verbatim>\<open>NaN\<close>: \<open>None\<close> is \<^verbatim>\<open>NaN\<close>, which any
  sum with it gives again.
\<close>

definition nan_rt :: "(int option, string) builtins" where
  "nan_rt =
     \<lparr>numPlus = (\<lambda>x y. case x of
                          None \<Rightarrow> None
                        | Some i \<Rightarrow> (case y of None \<Rightarrow> None | Some j \<Rightarrow> Some (i + j))),
      numToString = (\<lambda>x. case x of None \<Rightarrow> ''NaN'' | Some i \<Rightarrow> show_int i),
      numLit = (\<lambda>n. Some (int n)),
      dateToString = (\<lambda>d. d)\<rparr>"

section \<open>Evaluation lemmas\<close>

lemma printed_console_log [simp]:
  "printed w (Normal (console_log l w)) = [l]"
  by (simp add: printed_def console_log_def)

lemma heap_console_log [simp]: "heap (console_log l w) = heap w"
  by (simp add: console_log_def)

lemma console_console_log [simp]: "console (console_log l w) = console w @ [l]"
  by (simp add: console_log_def)

lemma printed_printEmployeeInformation:
  "printed w (printEmployeeInformation B emp w) =
     [''EMPLOYEE DETAILS:'', ''Name: '' @ toStr B (get (heap w emp) ''name'')]
     @ (if js_in ''startDate'' (heap w emp)
        then [''Start Date: '' @ toStr B (get (heap w emp) ''startDate'')] else [])
     @ (if js_in ''privileges'' (heap w emp)
        then [''Privileges: '' @ toStr B (get (heap w emp) ''privileges'')] else [])"
  by (simp add: printEmployeeInformation_def Let_def printed_def)

lemma printed_operateVehicle:
  "printed w (operateVehicle B v w) =
     (case proto (heap w v) of
        Object \<Rightarrow> [''Operating vehicle...'']
      | Car \<Rightarrow> [''Operating vehicle...'', ''vroom'']
      | Truck \<Rightarrow> [''Operating vehicle...'', ''VROOM'',
                   ''Loading cardo : '' @ numToString B (numLit B 420) @ '' kg(s)''])"
  by (simp add: operateVehicle_def Let_def drive_def Car_drive_def Truck_drive_def
      Truck_loadCargo_def instanceof_Truck_def printed_def split: cls.splits)

lemma printed_moveFauna:
  "printed w (moveFauna B f w) =
     [''The speed of the fauna is '' @ toStr B
        (if get (heap w f) ''type'' = Prim (Str ''animal'') then get (heap w f) ''runningSpeed''
         else if get (heap w f) ''type'' = Prim (Str ''bird'') then get (heap w f) ''flyingSpeed''
         else Undefined)]"
  by (simp add: moveFauna_def Let_def)

lemma heap_printEmployeeInformation:
  "heap (world_of (printEmployeeInformation B r w)) = heap w"
  by (simp add: printEmployeeInformation_def Let_def)

lemma heap_operateVehicle:
  "heap (world_of (operateVehicle B r w)) = heap w"
  by (simp add: operateVehicle_def Let_def drive_def Car_drive_def Truck_drive_def
      Truck_loadCargo_def split: cls.splits)

lemma heap_moveFauna:
  "heap (world_of (moveFauna B r w)) = heap w"
  by (simp add: moveFauna_def Let_def)

lemma is_normal_operateVehicle:
  "is_normal (operateVehicle B v w) = (proto (heap w v) \<noteq> Object)"
  by (simp add: operateVehicle_def Let_def drive_def split: cls.splits)

lemma is_normal_printEmployeeInformation: "is_normal (printEmployeeInformation B r w)"
  by (simp add: printEmployeeInformation_def Let_def)

lemma is_normal_moveFauna: "is_normal (moveFauna B r w)"
  by (simp add: moveFauna_def Let_def)

lemma operateVehicle_object_throws:
  "proto (heap w v) = Object \<Longrightarrow>
   operateVehicle B v w = Throw TypeError (console_log ''Operating vehicle...'' w)"
  by (simp add: operateVehicle_def Let_def drive_def)

lemma add_untyped_declared:
  "add_untyped B nan (Some a) (Some b) = Inr (add B a b)"
  by (simp add: add_untyped_def add_def)

lemma addCombinable_untyped_declared:
  "addCombinable_untyped B nan (Some a) (Some b) = Inr (addCombinable B a b)"
  by (simp add: addCombinable_untyped_def addCombinable_def)

lemma add_untyped_raises:
  assumes "add_untyped B nan x y = Inl t"
  shows "t = Runtime_error TypeError \<and> (x = None \<or> y = None)"
  using assms by (cases x; cases y) (auto simp add: add_untyped_def split: if_splits)

lemma addCombinable_untyped_raises:
  assumes "addCombinable_untyped B nan x y = Inl t"
  shows "t = Runtime_error TypeError \<and> (x = None \<or> y = None)"
  using assms
  by (cases x; cases y) (auto simp add: addCombinable_untyped_def split: if_splits)

lemma printEmployeeInformation_untyped_declared:
  "printEmployeeInformation_untyped B (Some e) w =
     Returns (world_of (printEmployeeInformation B e w))"
  by (simp add: printEmployeeInformation_untyped_def printEmployeeInformation_def
      and_then_def log_prop_def log_prop_if_in_def read_prop_def in_opt_def Let_def)

lemma printEmployeeInformation_untyped_raises:
  assumes "printEmployeeInformation_untyped B x w = Raises t w'"
  shows "t = Runtime_error TypeError \<and> x = None"
proof (cases x)
  case None
  with assms show ?thesis
    by (simp add: printEmployeeInformation_untyped_def and_then_def log_prop_def
        read_prop_def)
next
  case (Some e)
  with assms show ?thesis
    by (simp add: printEmployeeInformation_untyped_declared)
qed

lemma moveFauna_untyped_declared:
  "moveFauna_untyped B (Some f) w = Returns (world_of (moveFauna B f w))"
  by (simp add: moveFauna_untyped_def moveFauna_def read_prop_def Let_def)

lemma moveFauna_untyped_raises:
  assumes "moveFauna_untyped B x w = Raises t w'"
  shows "t = Runtime_error TypeError \<and> x = None"
proof (cases x)
  case None
  with assms show ?thesis
    by (simp add: moveFauna_untyped_def read_prop_def)
next
  case (Some f)
  with assms show ?thesis
    by (simp add: moveFauna_untyped_declared)
qed

lemma operateVehicle_untyped_object:
  "operateVehicle_untyped B (Some v) w =
     (case operateVehicle B v w of
        Normal w' \<Rightarrow> Returns w'
      | Throw e w' \<Rightarrow> Raises (Runtime_error e) w')"
  by (simp add: operateVehicle_untyped_def operateVehicle_def and_then_def drive_opt_def
      drive_def instanceof_Truck_opt_def Let_def split: cls.splits)

lemma operateVehicle_untyped_declared:
  assumes "proto (heap w v) = Car \<or> proto (heap w v) = Truck"
  shows "operateVehicle_untyped B (Some v) w = Returns (world_of (operateVehicle B v w))"
  using assms
  by (auto simp add: operateVehicle_untyped_object operateVehicle_def drive_def Let_def)

lemma operateVehicle_untyped_raises:
  assumes "operateVehicle_untyped B x w = Raises t w'"
  shows "t = Runtime_error TypeError \<and> (\<forall>r. x = Some r \<longrightarrow> proto (heap w r) = Object)"
  using assms
  by (cases x) (auto simp add: operateVehicle_untyped_def and_then_def drive_opt_def
      drive_def instanceof_Truck_opt_def split: cls.splits if_splits)

section \<open>Properties\<close>

text \<open>
  C1. \<open>add\<close> (the specification's \<open>combine\<close>) on two inputs that are each a string
  or a number: when at least one is a string the result is the concatenation of the two
  string conversions, and when both are numbers it is their numeric sum. The four
  cases exhaust the pairs of inputs. On the integer runtime,
  \<open>add "1" "2" = "12"\<close>, \<open>add 1 "2" = "12"\<close> and \<open>add 1 2 = 3\<close>.
\<close>

theorem add_spec:
  "add B (Str s) (Str t) = Str (s @ t)
   \<and> add B (Str s) (Num y) = Str (s @ numToString B y)
   \<and> add B (Num x) (Str t) = Str (numToString B x @ t)
   \<and> add B (Num x) (Num y) = Num (numPlus B x y)
   \<and> add int_rt (Str ''1'') (Str ''2'') = Str ''12''
   \<and> add int_rt (Num (numLit int_rt 1)) (Str ''2'') = Str ''12''
   \<and> add int_rt (Num (numLit int_rt 1)) (Num (numLit int_rt 2)) = Num (numLit int_rt 3)"
  by (simp add: add_def int_rt_def show_int_def decimal.simps digit_def)

text \<open>
  C2. The claim: splitting \<open>addCombinable "Ashutosh" " Bhadoria"\<close> on the space gives
  back the two arguments \<open>"Ashutosh"\<close> and \<open>" Bhadoria"\<close>. It does not: the second
  argument's leading space is the separator, and \<^verbatim>\<open>split\<close> drops it.
\<close>

theorem result_split_counterexample:
  "result_split int_rt \<noteq> Inr [''Ashutosh'', '' Bhadoria'']"
  by (simp add: result_split_def result_def addCombinable_def)

text \<open>
  C2, amended. Splitting \<open>addCombinable "Ashutosh" " Bhadoria"\<close> on the space gives
  exactly two tokens: the first argument \<open>"Ashutosh"\<close>, and \<open>"Bhadoria"\<close>, the second
  argument without its leading space.
\<close>

theorem result_split_tokens:
  "result_split B = Inr [''Ashutosh'', ''Bhadoria'']"
  by (simp add: result_split_def result_def addCombinable_def)

text \<open>
  C3. On a record whose \<open>type\<close> is neither \<open>"animal"\<close> nor \<open>"bird"\<close>, \<open>moveFauna\<close>
  falls through the \<^verbatim>\<open>switch\<close> with \<open>speed\<close> unassigned, completes normally and
  prints the speed as \<open>undefined\<close>.
\<close>

theorem moveFauna_unknown_tag:
  assumes "get (heap w fauna) ''type'' \<noteq> Prim (Str ''animal'')"
    and "get (heap w fauna) ''type'' \<noteq> Prim (Str ''bird'')"
  shows "moveFauna B fauna w =
           Normal (console_log ''The speed of the fauna is undefined'' w)"
  using assms by (simp add: moveFauna_def)

theorem moveFauna_unknown_tag_witness:
  "get \<lparr>proto = Object, props = [''type'' \<mapsto> Prim (Str ''fish'')]\<rparr> ''type''
     \<noteq> (Prim (Str ''animal'') :: (int, string) jsval)
   \<and> get \<lparr>proto = Object, props = [''type'' \<mapsto> Prim (Str ''fish'')]\<rparr> ''type''
     \<noteq> (Prim (Str ''bird'') :: (int, string) jsval)
   \<and> moveFauna int_rt 0
       \<lparr>console = [], heap = (\<lambda>r. \<lparr>proto = Object, props = [''type'' \<mapsto> Prim (Str ''fish'')]\<rparr>)\<rparr>
     = Normal \<lparr>console = [''The speed of the fauna is undefined''],
              heap = (\<lambda>r. \<lparr>proto = Object, props = [''type'' \<mapsto> Prim (Str ''fish'')]\<rparr>)\<rparr>"
  using moveFauna_unknown_tag
    [of "\<lparr>console = [], heap = (\<lambda>r. \<lparr>proto = Object, props = [''type'' \<mapsto> Prim (Str ''fish'')]\<rparr>)\<rparr>"
        0 int_rt]
  by (simp add: get_def console_log_def)

text \<open>
  C4. \<open>addCombinable\<close> (the specification's \<open>mergeOverloaded\<close>) returns the same value
  as \<open>add\<close> on every pair of inputs; the overload signatures change the declared
  result type only.
\<close>

theorem addCombinable_eq_add:
  "addCombinable B a b = add B a b"
  by (simp add: addCombinable_def add_def)

text \<open>
  C5. \<open>printEmployeeInformation\<close> (the specification's \<open>describePerson\<close>) prints the
  heading and the name, then the start-date line exactly when the record has a property
  \<open>startDate\<close>, then the privileges line exactly when it has a property \<open>privileges\<close>;
  a record with both gets both lines.
\<close>

theorem printEmployeeInformation_spec:
  "printed w (printEmployeeInformation B emp w) =
     [''EMPLOYEE DETAILS:'', ''Name: '' @ toStr B (get (heap w emp) ''name'')]
     @ (if js_in ''startDate'' (heap w emp)
        then [''Start Date: '' @ toStr B (get (heap w emp) ''startDate'')] else [])
     @ (if js_in ''privileges'' (heap w emp)
        then [''Privileges: '' @ toStr B (get (heap w emp) ''privileges'')] else [])
   \<and> ''Name: '' @ toStr B (get (heap w emp) ''name'')
        \<in> set (printed w (printEmployeeInformation B emp w))
   \<and> ((\<exists>l \<in> set (printed w (printEmployeeInformation B emp w)). take 12 l = ''Start Date: '')
        = js_in ''startDate'' (heap w emp))
   \<and> ((\<exists>l \<in> set (printed w (printEmployeeInformation B emp w)). take 12 l = ''Privileges: '')
        = js_in ''privileges'' (heap w emp))"
  by (auto simp add: printed_printEmployeeInformation)

theorem printEmployeeInformation_spec_witness:
  "printed (module_world int_rt ''Mon Nov 02 2026'')
     (printEmployeeInformation int_rt 0 (module_world int_rt ''Mon Nov 02 2026'')) =
     [''EMPLOYEE DETAILS:'', ''Name: Ashutosh'', ''Start Date: Mon Nov 02 2026'',
      ''Privileges: drop-tables,change-schema'']
   \<and> printed (module_world int_rt ''Mon Nov 02 2026'')
     (printEmployeeInformation int_rt 1 (module_world int_rt ''Mon Nov 02 2026'')) =
     [''EMPLOYEE DETAILS:'', ''Name: Aditya'', ''Privileges: restart-server'']
   \<and> printed (module_world int_rt ''Mon Nov 02 2026'')
     (printEmployeeInformation int_rt 2 (module_world int_rt ''Mon Nov 02 2026'')) =
     [''EMPLOYEE DETAILS:'', ''Name: Randy'', ''Start Date: Mon Nov 02 2026'']"
  using printEmployeeInformation_spec [of "module_world int_rt ''Mon Nov 02 2026''" int_rt 0]
    printEmployeeInformation_spec [of "module_world int_rt ''Mon Nov 02 2026''" int_rt 1]
    printEmployeeInformation_spec [of "module_world int_rt ''Mon Nov 02 2026''" int_rt 2]
  by (simp add: module_world_def module_heap_def ashutosh_def aditya_def randy_def
      get_def js_in_def int_rt_def)

text \<open>
  C6. On a \<open>Car\<close> or a \<open>Truck\<close>, \<open>operateVehicle\<close> calls the vehicle's \<open>drive\<close>; on a
  \<open>Truck\<close> it then calls \<open>loadCargo\<close> with the weight 420, and on a \<open>Car\<close> it calls
  nothing else. The cargo line is printed exactly when the object is an instance of
  \<open>Truck\<close>.
\<close>

theorem operateVehicle_spec:
  "(proto (heap w v) = Car \<longrightarrow>
      operateVehicle B v w = Normal (Car_drive (console_log ''Operating vehicle...'' w)))
   \<and> (proto (heap w v) = Truck \<longrightarrow>
      operateVehicle B v w =
        Normal (Truck_loadCargo B (numLit B 420)
                 (Truck_drive (console_log ''Operating vehicle...'' w))))
   \<and> ((\<exists>l \<in> set (printed w (operateVehicle B v w)). take 16 l = ''Loading cardo : '')
        = (proto (heap w v) = Truck))"
proof (intro conjI impI)
  assume "proto (heap w v) = Car"
  then show "operateVehicle B v w = Normal (Car_drive (console_log ''Operating vehicle...'' w))"
    by (simp add: operateVehicle_def Let_def drive_def instanceof_Truck_def Car_drive_def)
next
  assume "proto (heap w v) = Truck"
  then show "operateVehicle B v w =
      Normal (Truck_loadCargo B (numLit B 420)
               (Truck_drive (console_log ''Operating vehicle...'' w)))"
    by (simp add: operateVehicle_def Let_def drive_def instanceof_Truck_def Truck_drive_def)
next
  show "(\<exists>l \<in> set (printed w (operateVehicle B v w)). take 16 l = ''Loading cardo : '')
        = (proto (heap w v) = Truck)"
    by (cases "proto (heap w v)") (simp_all add: printed_operateVehicle)
qed

theorem operateVehicle_spec_witness:
  "proto (heap (module_world int_rt ''Mon Nov 02 2026'') 3) = Car
   \<and> printed (module_world int_rt ''Mon Nov 02 2026'')
       (operateVehicle int_rt 3 (module_world int_rt ''Mon Nov 02 2026'')) =
       [''Operating vehicle...'', ''vroom'']
   \<and> proto (heap (module_world int_rt ''Mon Nov 02 2026'') 4) = Truck
   \<and> printed (module_world int_rt ''Mon Nov 02 2026'')
       (operateVehicle int_rt 4 (module_world int_rt ''Mon Nov 02 2026'')) =
       [''Operating vehicle...'', ''VROOM'', ''Loading cardo : 420 kg(s)'']"
proof -
  let ?w = "module_world int_rt ''Mon Nov 02 2026''"
  have car: "proto (heap ?w 3) = Car"
    by (simp add: module_world_def module_heap_def shelbyGT_def)
  have truck: "proto (heap ?w 4) = Truck"
    by (simp add: module_world_def module_heap_def fordRaptor_def)
  have lit: "toStr int_rt (Prim (Num (numLit int_rt 420))) = ''420''"
    by (simp add: int_rt_def show_int_def decimal.simps digit_def)
  from car truck lit operateVehicle_spec [of ?w 3 int_rt] operateVehicle_spec [of ?w 4 int_rt]
  show ?thesis
    by (simp add: Car_drive_def Truck_drive_def Truck_loadCargo_def printed_def)
qed

text \<open>
  C7. On a record with a legal tag, \<open>moveFauna\<close> prints the speed property that the
  tag selects: \<open>runningSpeed\<close> for \<open>"animal"\<close>, \<open>flyingSpeed\<close> for \<open>"bird"\<close>. On the
  module's \<open>horse\<close> it reports the speed 20 and on its \<open>sparrow\<close> the speed 10.
\<close>

theorem moveFauna_spec:
  "(get (heap w f) ''type'' = Prim (Str ''animal'') \<longrightarrow>
      moveFauna B f w =
        Normal (console_log
          (''The speed of the fauna is '' @ toStr B (get (heap w f) ''runningSpeed'')) w))
   \<and> (get (heap w f) ''type'' = Prim (Str ''bird'') \<longrightarrow>
      moveFauna B f w =
        Normal (console_log
          (''The speed of the fauna is '' @ toStr B (get (heap w f) ''flyingSpeed'')) w))
   \<and> (heap w0 f0 = horse int_rt \<longrightarrow>
      printed w0 (moveFauna int_rt f0 w0) = [''The speed of the fauna is 20''])
   \<and> (heap w0 f0 = sparrow int_rt \<longrightarrow>
      printed w0 (moveFauna int_rt f0 w0) = [''The speed of the fauna is 10''])"
proof (intro conjI impI)
  assume "get (heap w f) ''type'' = Prim (Str ''animal'')"
  then show "moveFauna B f w =
      Normal (console_log
        (''The speed of the fauna is '' @ toStr B (get (heap w f) ''runningSpeed'')) w)"
    by (simp add: moveFauna_def)
next
  assume "get (heap w f) ''type'' = Prim (Str ''bird'')"
  then show "moveFauna B f w =
      Normal (console_log
        (''The speed of the fauna is '' @ toStr B (get (heap w f) ''flyingSpeed'')) w)"
    by (simp add: moveFauna_def)
next
  assume "heap w0 f0 = horse int_rt"
  then show "printed w0 (moveFauna int_rt f0 w0) = [''The speed of the fauna is 20'']"
    by (simp add: printed_moveFauna horse_def get_def int_rt_def show_int_def
        decimal.simps digit_def)
next
  assume "heap w0 f0 = sparrow int_rt"
  then show "printed w0 (moveFauna int_rt f0 w0) = [''The speed of the fauna is 10'']"
    by (simp add: printed_moveFauna sparrow_def get_def int_rt_def show_int_def
        decimal.simps digit_def)
qed

theorem moveFauna_spec_witness:
  "get (heap (module_world int_rt ''Mon Nov 02 2026'') 5) ''type'' = Prim (Str ''animal'')
   \<and> moveFauna int_rt 5 (module_world int_rt ''Mon Nov 02 2026'') =
       Normal (console_log ''The speed of the fauna is 20''
                (module_world int_rt ''Mon Nov 02 2026''))
   \<and> get (heap (module_world int_rt ''Mon Nov 02 2026'') 6) ''type'' = Prim (Str ''bird'')
   \<and> moveFauna int_rt 6 (module_world int_rt ''Mon Nov 02 2026'') =
       Normal (console_log ''The speed of the fauna is 10''
                (module_world int_rt ''Mon Nov 02 2026''))
   \<and> heap (module_world int_rt ''Mon Nov 02 2026'') 5 = horse int_rt
   \<and> printed (module_world int_rt ''Mon Nov 02 2026'')
       (moveFauna int_rt 5 (module_world int_rt ''Mon Nov 02 2026'')) =
       [''The speed of the fauna is 20'']"
proof -
  let ?w = "module_world int_rt ''Mon Nov 02 2026''"
  have h5: "heap ?w 5 = horse int_rt" and h6: "heap ?w 6 = sparrow int_rt"
    by (simp_all add: module_world_def module_heap_def)
  have t5: "get (heap ?w 5) ''type'' = Prim (Str ''animal'')"
    and s5: "toStr int_rt (get (heap ?w 5) ''runningSpeed'') = ''20''"
    unfolding h5 by (simp_all add: horse_def get_def int_rt_def show_int_def
        decimal.simps digit_def)
  have t6: "get (heap ?w 6) ''type'' = Prim (Str ''bird'')"
    and s6: "toStr int_rt (get (heap ?w 6) ''flyingSpeed'') = ''10''"
    unfolding h6 by (simp_all add: sparrow_def get_def int_rt_def show_int_def
        decimal.simps digit_def)
  from h5 t5 s5 t6 s6
    moveFauna_spec [of ?w 5 int_rt ?w 5] moveFauna_spec [of ?w 6 int_rt ?w 6]
  show ?thesis by simp
qed

text \<open>
  C8. The dispatch functions keep no state between calls. A second call of
  \<open>printEmployeeInformation\<close>, \<open>operateVehicle\<close> or \<open>moveFauna\<close> on the same record,
  in the world the first call left, completes the same way and prints the same lines;
  and in any two worlds that hold the same record at the reference the call prints the
  same lines, whatever the consoles and the rest of the heaps are. \<open>add\<close> and
  \<open>addCombinable\<close> read and write nothing but their parameters, which is why they
  are functions of \<open>a\<close> and \<open>b\<close> alone above.
\<close>

theorem dispatch_deterministic:
  "printed (world_of (printEmployeeInformation B r w))
       (printEmployeeInformation B r (world_of (printEmployeeInformation B r w)))
     = printed w (printEmployeeInformation B r w)
   \<and> is_normal (printEmployeeInformation B r (world_of (printEmployeeInformation B r w)))
     = is_normal (printEmployeeInformation B r w)
   \<and> printed (world_of (operateVehicle B r w))
       (operateVehicle B r (world_of (operateVehicle B r w)))
     = printed w (operateVehicle B r w)
   \<and> is_normal (operateVehicle B r (world_of (operateVehicle B r w)))
     = is_normal (operateVehicle B r w)
   \<and> printed (world_of (moveFauna B r w)) (moveFauna B r (world_of (moveFauna B r w)))
     = printed w (moveFauna B r w)
   \<and> is_normal (moveFauna B r (world_of (moveFauna B r w)))
     = is_normal (moveFauna B r w)
   \<and> (heap w' r = heap w r \<longrightarrow>
        printed w' (printEmployeeInformation B r w') = printed w (printEmployeeInformation B r w)
        \<and> printed w' (operateVehicle B r w') = printed w (operateVehicle B r w)
        \<and> printed w' (moveFauna B r w') = printed w (moveFauna B r w))"
  by (simp add: printed_printEmployeeInformation printed_operateVehicle printed_moveFauna
      heap_printEmployeeInformation heap_operateVehicle heap_moveFauna
      is_normal_printEmployeeInformation is_normal_operateVehicle is_normal_moveFauna)

theorem dispatch_deterministic_witness:
  "heap ((module_world int_rt ''Mon Nov 02 2026'')\<lparr>console := [''earlier line'']\<rparr>) 4
     = heap (module_world int_rt ''Mon Nov 02 2026'') 4
   \<and> printed ((module_world int_rt ''Mon Nov 02 2026'')\<lparr>console := [''earlier line'']\<rparr>)
       (operateVehicle int_rt 4
         ((module_world int_rt ''Mon Nov 02 2026'')\<lparr>console := [''earlier line'']\<rparr>))
     = printed (module_world int_rt ''Mon Nov 02 2026'')
         (operateVehicle int_rt 4 (module_world int_rt ''Mon Nov 02 2026''))
   \<and> printed (world_of (operateVehicle int_rt 4 (module_world int_rt ''Mon Nov 02 2026'')))
       (operateVehicle int_rt 4
         (world_of (operateVehicle int_rt 4 (module_world int_rt ''Mon Nov 02 2026''))))
     = printed (module_world int_rt ''Mon Nov 02 2026'')
         (operateVehicle int_rt 4 (module_world int_rt ''Mon Nov 02 2026''))"
  using dispatch_deterministic
    [of int_rt 4 "module_world int_rt ''Mon Nov 02 2026''"
        "(module_world int_rt ''Mon Nov 02 2026'')\<lparr>console := [''earlier line'']\<rparr>"]
  by simp

text \<open>
  C9. Every function of the module is total on its declared inputs, and the module has
  no error of its own. With the runtime checks of every operation in the bodies:
  \<^item> on every pair of strings and numbers \<open>add\<close> and \<open>addCombinable\<close> return, and the
    value is the concatenation or sum of C1; on every record
    \<open>printEmployeeInformation\<close> and \<open>moveFauna\<close> return; on every \<open>Car\<close> or \<open>Truck\<close>
    \<open>operateVehicle\<close> returns, and so do the methods \<open>drive\<close> and \<open>loadCargo\<close> it
    calls, which only log;
  \<^item> on any argument, declared or missing, whatever a call raises is the runtime's
    \<^verbatim>\<open>TypeError\<close>, never a value thrown by the module, and it is raised only on an
    argument outside the declared type: a missing argument, or for
    \<open>operateVehicle\<close> an object that is neither a \<open>Car\<close> nor a \<open>Truck\<close>.
\<close>

theorem module_total:
  "add_untyped B nan (Some a) (Some b) = Inr (add B a b)
   \<and> addCombinable_untyped B nan (Some a) (Some b) = Inr (addCombinable B a b)
   \<and> printEmployeeInformation_untyped B (Some e) w =
       Returns (world_of (printEmployeeInformation B e w))
   \<and> moveFauna_untyped B (Some f) w = Returns (world_of (moveFauna B f w))
   \<and> (proto (heap w v) = Car \<or> proto (heap w v) = Truck \<longrightarrow>
        operateVehicle_untyped B (Some v) w = Returns (world_of (operateVehicle B v w)))
   \<and> (add_untyped B nan x y = Inl t \<longrightarrow>
        t = Runtime_error TypeError \<and> (x = None \<or> y = None))
   \<and> (addCombinable_untyped B nan x y = Inl t \<longrightarrow>
        t = Runtime_error TypeError \<and> (x = None \<or> y = None))
   \<and> (printEmployeeInformation_untyped B xe w = Raises t' w' \<longrightarrow>
        t' = Runtime_error TypeError \<and> xe = None)
   \<and> (moveFauna_untyped B xf w = Raises t' w' \<longrightarrow>
        t' = Runtime_error TypeError \<and> xf = None)
   \<and> (operateVehicle_untyped B xv w = Raises t' w' \<longrightarrow>
        t' = Runtime_error TypeError \<and> (\<forall>r. xv = Some r \<longrightarrow> proto (heap w r) = Object))"
proof (intro conjI impI)
  show "add_untyped B nan (Some a) (Some b) = Inr (add B a b)"
    by (rule add_untyped_declared)
  show "addCombinable_untyped B nan (Some a) (Some b) = Inr (addCombinable B a b)"
    by (rule addCombinable_untyped_declared)
  show "printEmployeeInformation_untyped B (Some e) w =
      Returns (world_of (printEmployeeInformation B e w))"
    by (rule printEmployeeInformation_untyped_declared)
  show "moveFauna_untyped B (Some f) w = Returns (world_of (moveFauna B f w))"
    by (rule moveFauna_untyped_declared)
next
  assume "proto (heap w v) = Car \<or> proto (heap w v) = Truck"
  then show "operateVehicle_untyped B (Some v) w =
      Returns (world_of (operateVehicle B v w))"
    by (rule operateVehicle_untyped_declared)
next
  assume r: "add_untyped B nan x y = Inl t"
  from add_untyped_raises [OF r]
  show "t = Runtime_error TypeError" and "x = None \<or> y = None" by simp_all
next
  assume r: "addCombinable_untyped B nan x y = Inl t"
  from addCombinable_untyped_raises [OF r]
  show "t = Runtime_error TypeError" and "x = None \<or> y = None" by simp_all
next
  assume r: "printEmployeeInformation_untyped B xe w = Raises t' w'"
  from printEmployeeInformation_untyped_raises [OF r]
  show "t' = Runtime_error TypeError" and "xe = None" by simp_all
next
  assume r: "moveFauna_untyped B xf w = Raises t' w'"
  from moveFauna_untyped_raises [OF r]
  show "t' = Runtime_error TypeError" and "xf = None" by simp_all
next
  assume r: "operateVehicle_untyped B xv w = Raises t' w'"
  from operateVehicle_untyped_raises [OF r]
  show "t' = Runtime_error TypeError"
    and "\<forall>r. xv = Some r \<longrightarrow> proto (heap w r) = Object" by simp_all
qed

theorem module_total_witness:
  "(proto (heap (module_world int_rt ''Mon Nov 02 2026'') 4) = Car
     \<or> proto (heap (module_world int_rt ''Mon Nov 02 2026'') 4) = Truck)
   \<and> operateVehicle_untyped int_rt (Some 4) (module_world int_rt ''Mon Nov 02 2026'') =
       Returns \<lparr>console = [''Operating vehicle...'', ''VROOM'', ''Loading cardo : 420 kg(s)''],
                heap = module_heap int_rt ''Mon Nov 02 2026''\<rparr>
   \<and> operateVehicle_untyped int_rt (Some 5) (module_world int_rt ''Mon Nov 02 2026'') =
       Raises (Runtime_error TypeError)
         (console_log ''Operating vehicle...'' (module_world int_rt ''Mon Nov 02 2026''))
   \<and> proto (heap (module_world int_rt ''Mon Nov 02 2026'') 5) = Object
   \<and> operateVehicle_untyped int_rt None (module_world int_rt ''Mon Nov 02 2026'') =
       Raises (Runtime_error TypeError)
         (console_log ''Operating vehicle...'' (module_world int_rt ''Mon Nov 02 2026''))
   \<and> printEmployeeInformation_untyped int_rt None (module_world int_rt ''Mon Nov 02 2026'') =
       Raises (Runtime_error TypeError)
         (console_log ''EMPLOYEE DETAILS:'' (module_world int_rt ''Mon Nov 02 2026''))
   \<and> moveFauna_untyped int_rt None (module_world int_rt ''Mon Nov 02 2026'') =
       Raises (Runtime_error TypeError) (module_world int_rt ''Mon Nov 02 2026'')
   \<and> moveFauna_untyped int_rt (Some 5) (module_world int_rt ''Mon Nov 02 2026'') =
       Returns (console_log ''The speed of the fauna is 20''
                 (module_world int_rt ''Mon Nov 02 2026''))
   \<and> add_untyped nan_rt None (Some (Num (numLit nan_rt 1))) (Some (Str ''2'')) = Inr (Str ''12'')
   \<and> add_untyped nan_rt None None (Some (Str ''2'')) = Inl (Runtime_error TypeError)
   \<and> add_untyped nan_rt None (Some (Str ''1'')) None = Inl (Runtime_error TypeError)
   \<and> add_untyped nan_rt None None (Some (Num (numLit nan_rt 2))) = Inr (Num None)"
proof -
  let ?w = "module_world int_rt ''Mon Nov 02 2026''"
  let ?h = "''Operating vehicle...''"
  have truck: "proto (heap ?w 4) = Truck"
    by (simp add: module_world_def module_heap_def fordRaptor_def)
  have plain: "proto (heap ?w 5) = Object"
    by (simp add: module_world_def module_heap_def horse_def)
  have lit: "toStr int_rt (Prim (Num (numLit int_rt 420))) = ''420''"
    by (simp add: int_rt_def show_int_def decimal.simps digit_def)
  have run4: "world_of (operateVehicle int_rt 4 ?w) =
      \<lparr>console = [?h, ''VROOM'', ''Loading cardo : 420 kg(s)''],
       heap = module_heap int_rt ''Mon Nov 02 2026''\<rparr>"
    using truck lit
    by (simp add: operateVehicle_def Let_def drive_def instanceof_Truck_def Truck_drive_def
        Truck_loadCargo_def console_log_def module_world_def)
  have run5: "operateVehicle_untyped int_rt (Some 5) ?w =
      Raises (Runtime_error TypeError) (console_log ?h ?w)"
    using plain by (simp add: operateVehicle_untyped_object operateVehicle_object_throws)
  have none_v: "operateVehicle_untyped int_rt None ?w =
      Raises (Runtime_error TypeError) (console_log ?h ?w)"
    by (simp add: operateVehicle_untyped_def and_then_def drive_opt_def)
  have none_e: "printEmployeeInformation_untyped int_rt None ?w =
      Raises (Runtime_error TypeError) (console_log ''EMPLOYEE DETAILS:'' ?w)"
    by (simp add: printEmployeeInformation_untyped_def and_then_def log_prop_def
        read_prop_def)
  have none_f: "moveFauna_untyped int_rt None ?w = Raises (Runtime_error TypeError) ?w"
    by (simp add: moveFauna_untyped_def read_prop_def)
  have speed5: "world_of (moveFauna int_rt 5 ?w) =
      console_log ''The speed of the fauna is 20'' ?w"
    by (simp add: moveFauna_def module_world_def module_heap_def horse_def get_def
        int_rt_def show_int_def decimal.simps digit_def)
  have adds:
    "add nan_rt (Num (numLit nan_rt 1)) (Str ''2'') = Str ''12''"
    "add_untyped nan_rt None None (Some (Str ''2'')) = Inl (Runtime_error TypeError)"
    "add_untyped nan_rt None (Some (Str ''1'')) None = Inl (Runtime_error TypeError)"
    "add_untyped nan_rt None None (Some (Num (numLit nan_rt 2))) = Inr (Num None)"
    by (simp_all add: add_def add_untyped_def nan_rt_def show_int_def decimal.simps
        digit_def)
  note int_case = module_total [where B = int_rt and w = ?w and v = 4 and f = 5]
  note nan_case = module_total [where B = nan_rt and nan = None
      and a = "Num (numLit nan_rt 1)" and b = "Str ''2''"]
  have ret4: "operateVehicle_untyped int_rt (Some 4) ?w =
      Returns (world_of (operateVehicle int_rt 4 ?w))"
    using int_case [THEN conjunct2, THEN conjunct2, THEN conjunct2, THEN conjunct2,
        THEN conjunct1] truck
    by simp
  have ret5: "moveFauna_untyped int_rt (Some 5) ?w =
      Returns (world_of (moveFauna int_rt 5 ?w))"
    by (rule int_case [THEN conjunct2, THEN conjunct2, THEN conjunct2, THEN conjunct1])
  have ret_add: "add_untyped nan_rt None (Some (Num (numLit nan_rt 1))) (Some (Str ''2'')) =
      Inr (add nan_rt (Num (numLit nan_rt 1)) (Str ''2''))"
    by (rule nan_case [THEN conjunct1])
  show ?thesis
    unfolding ret4 ret5 ret_add run4 speed5
    using truck plain run5 none_v none_e none_f adds by simp
qed

text \<open>
  C10. No dispatch function changes a record: after a call of
  \<open>printEmployeeInformation\<close>, \<open>operateVehicle\<close> or \<open>moveFauna\<close>, however it
  completes, the heap is the heap before the call, so every property of every object,
  the argument included, is unchanged.
\<close>

theorem dispatch_keeps_heap:
  "heap (world_of (printEmployeeInformation B r w)) = heap w
   \<and> heap (world_of (operateVehicle B r w)) = heap w
   \<and> heap (world_of (moveFauna B r w)) = heap w"
  by (simp add: heap_printEmployeeInformation heap_operateVehicle heap_moveFauna)

end
